theory Spec2Isabelle
  imports Complex_Main "HOL-Library.AList"
begin

section \<open>Python values and exceptions\<close>

text \<open>
  A pair-data record is a JSON document as \<^verbatim>\<open>response.json()\<close> yields it.  Python
  numbers of type \<^verbatim>\<open>float\<close> are modelled as reals: rounding, infinities, NaN and the
  finite range of a float (an int too large to convert) are outside the model.  A \<^verbatim>\<open>dict\<close> is an association list in insertion order, looked
  up with \<^const>\<open>map_of\<close>.
\<close>

datatype pyval =
    PNone
  | PBool bool
  | PInt int
  | PFloat real
  | PStr string
  | PList "pyval list"
  | PDict "(string \<times> pyval) list"

datatype py_error =
    AttributeError
  | TypeError
  | ValueError
  | OverflowError
  | ZeroDivisionError

text \<open>
  What the code takes from the Python runtime and the clock: \<^verbatim>\<open>datetime.now()\<close> in
  seconds since the epoch, \<^verbatim>\<open>datetime.fromtimestamp\<close> (\<open>None\<close> where it raises on a
  timestamp out of the platform's range), \<^verbatim>\<open>float\<close> on a string (\<open>None\<close> where it
  raises \<^verbatim>\<open>ValueError\<close>), the format \<^verbatim>\<open>{x:,.0f}\<close> and \<^verbatim>\<open>str(e)\<close> of an exception.
\<close>

record pyenv =
  env_now :: real
  env_fromtimestamp :: "real \<Rightarrow> real option"
  env_float_of_str :: "string \<Rightarrow> real option"
  env_format_usd :: "real \<Rightarrow> string"
  env_str_exc :: "py_error \<Rightarrow> string"

text \<open>\<^verbatim>\<open>d.get(key, default)\<close>: only a dict has the attribute \<^verbatim>\<open>get\<close>.\<close>

fun py_get :: "pyval \<Rightarrow> string \<Rightarrow> pyval \<Rightarrow> py_error + pyval" where
  "py_get (PDict kvs) key dflt = Inr (case map_of kvs key of None \<Rightarrow> dflt | Some v \<Rightarrow> v)"
| "py_get _ key dflt = Inl AttributeError"

text \<open>The value of a Python number (a bool is the int 0 or 1); \<open>None\<close> for every other type.\<close>

fun py_num :: "pyval \<Rightarrow> real option" where
  "py_num (PBool b) = Some (if b then 1 else 0)"
| "py_num (PInt i) = Some (real_of_int i)"
| "py_num (PFloat x) = Some x"
| "py_num _ = None"

text \<open>\<^verbatim>\<open>float(v)\<close>.\<close>

fun py_float :: "pyenv \<Rightarrow> pyval \<Rightarrow> py_error + real" where
  "py_float env (PStr s) =
     (case env_float_of_str env s of None \<Rightarrow> Inl ValueError | Some x \<Rightarrow> Inr x)"
| "py_float env v = (case py_num v of None \<Rightarrow> Inl TypeError | Some x \<Rightarrow> Inr x)"

text \<open>Truthiness, as \<^verbatim>\<open>if v:\<close> tests it.\<close>

fun py_truthy :: "pyval \<Rightarrow> bool" where
  "py_truthy PNone = False"
| "py_truthy (PBool b) = b"
| "py_truthy (PInt i) = (i \<noteq> 0)"
| "py_truthy (PFloat x) = (x \<noteq> 0)"
| "py_truthy (PStr s) = (s \<noteq> [])"
| "py_truthy (PList vs) = (vs \<noteq> [])"
| "py_truthy (PDict kvs) = (kvs \<noteq> [])"

text \<open>\<^verbatim>\<open>v / d\<close> for a non-zero number \<open>d\<close>: a \<^verbatim>\<open>TypeError\<close> unless \<open>v\<close> is a number.\<close>

definition py_truediv :: "pyval \<Rightarrow> real \<Rightarrow> py_error + real" where
  "py_truediv v d = (case py_num v of None \<Rightarrow> Inl TypeError | Some x \<Rightarrow> Inr (x / d))"

text \<open>\<^verbatim>\<open>s.lower()\<close> on the ASCII letters; only a str has the attribute \<^verbatim>\<open>lower\<close>.\<close>

definition lower_char :: "char \<Rightarrow> char" where
  "lower_char c =
     (case map_of (zip ''ABCDEFGHIJKLMNOPQRSTUVWXYZ'' ''abcdefghijklmnopqrstuvwxyz'') c of
        None \<Rightarrow> c
      | Some l \<Rightarrow> l)"

fun py_lower :: "pyval \<Rightarrow> py_error + string" where
  "py_lower (PStr s) = Inr (map lower_char s)"
| "py_lower _ = Inl AttributeError"

text \<open>\<^verbatim>\<open>sub in s\<close> on strings: \<open>sub\<close> occurs in \<open>s\<close> as a contiguous run.\<close>

fun is_prefix :: "string \<Rightarrow> string \<Rightarrow> bool" where
  "is_prefix [] s = True"
| "is_prefix (a # as) [] = False"
| "is_prefix (a # as) (c # cs) = (a = c \<and> is_prefix as cs)"

fun py_in :: "string \<Rightarrow> string \<Rightarrow> bool" where
  "py_in sub [] = (sub = [])"
| "py_in sub (c # cs) = (is_prefix sub (c # cs) \<or> py_in sub cs)"

section \<open>The scoring engine\<close>

record analysis =
  score :: real
  decision :: string
  confidence :: real
  reasons :: "string list"

definition calculate_liquidity_score :: "real \<Rightarrow> real" where
  "calculate_liquidity_score liquidity =
     (if liquidity \<ge> 50000 then 1.0
      else if liquidity \<ge> 25000 then 0.8
      else if liquidity \<ge> 10000 then 0.6
      else if liquidity \<ge> 5000 then 0.4
      else 0.2)"

text \<open>The body of the \<^verbatim>\<open>try\<close> in \<^verbatim>\<open>_calculate_price_momentum\<close>, and the function with its
  bare \<^verbatim>\<open>except\<close>.\<close>

definition price_momentum_try :: "pyval \<Rightarrow> py_error + real" where
  "price_momentum_try pair_data =
     (case py_get pair_data ''priceChange'' (PDict []) of
        Inl e \<Rightarrow> Inl e
      | Inr price_change \<Rightarrow>
          (case py_get price_change ''h24'' (PInt 0) of
             Inl e \<Rightarrow> Inl e
           | Inr h24_change \<Rightarrow>
               (case py_num h24_change of
                  None \<Rightarrow> Inl TypeError
                | Some h \<Rightarrow>
                    Inr (if h > 0.5 then 0.9
                         else if h > 0.2 then 0.7
                         else if h > 0 then 0.5
                         else if h > - 0.1 then 0.3
                         else 0.1))))"

definition calculate_price_momentum :: "pyval \<Rightarrow> real" where
  "calculate_price_momentum pair_data =
     (case price_momentum_try pair_data of Inl e \<Rightarrow> 0.5 | Inr s \<Rightarrow> s)"

definition volume_try :: "pyval \<Rightarrow> py_error + real" where
  "volume_try pair_data =
     (case py_get pair_data ''volume'' (PDict []) of
        Inl e \<Rightarrow> Inl e
      | Inr volume \<Rightarrow>
          (case py_get volume ''h24'' (PInt 0) of
             Inl e \<Rightarrow> Inl e
           | Inr h24_volume \<Rightarrow>
               (case py_num h24_volume of
                  None \<Rightarrow> Inl TypeError
                | Some v \<Rightarrow>
                    Inr (if v > 1000000 then 1.0
                         else if v > 500000 then 0.8
                         else if v > 100000 then 0.6
                         else if v > 50000 then 0.4
                         else 0.2))))"

definition analyze_volume :: "pyval \<Rightarrow> real" where
  "analyze_volume pair_data =
     (case volume_try pair_data of Inl e \<Rightarrow> 0.3 | Inr s \<Rightarrow> s)"

text \<open>The \<^verbatim>\<open>try\<close> of \<^verbatim>\<open>_analyze_token_age\<close>: \<open>Inr None\<close> when it falls through without
  returning (a falsy \<^verbatim>\<open>pairCreatedAt\<close>).\<close>

definition token_age_try :: "pyenv \<Rightarrow> pyval \<Rightarrow> py_error + real option" where
  "token_age_try env pair_data =
     (case py_get pair_data ''pairCreatedAt'' PNone of
        Inl e \<Rightarrow> Inl e
      | Inr pair_created_at \<Rightarrow>
          if py_truthy pair_created_at then
            (case py_truediv pair_created_at 1000 of
               Inl e \<Rightarrow> Inl e
             | Inr secs \<Rightarrow>
                 (case env_fromtimestamp env secs of
                    None \<Rightarrow> Inl OverflowError
                  | Some created_time \<Rightarrow>
                      (let age_hours = (env_now env - created_time) / 3600
                       in Inr (Some (if age_hours \<le> 1 then 1.0
                                     else if age_hours \<le> 6 then 0.8
                                     else if age_hours \<le> 24 then 0.6
                                     else 0.3)))))
          else Inr None)"

definition analyze_token_age :: "pyenv \<Rightarrow> pyval \<Rightarrow> real" where
  "analyze_token_age env pair_data =
     (case token_age_try env pair_data of Inr (Some s) \<Rightarrow> s | _ \<Rightarrow> 0.5)"

definition social_indicators :: "string list" where
  "social_indicators = [''elon'', ''moon'', ''doge'', ''shib'', ''pepe'', ''wojak'']"

text \<open>\<^verbatim>\<open>_estimate_social_presence\<close> has no handler of its own: its faults reach the caller.\<close>

definition estimate_social_presence :: "pyval \<Rightarrow> py_error + real" where
  "estimate_social_presence pair_data =
     (case py_get pair_data ''baseToken'' (PDict []) of
        Inl e \<Rightarrow> Inl e
      | Inr base_token \<Rightarrow>
          (case py_get base_token ''symbol'' (PStr []) of
             Inl e \<Rightarrow> Inl e
           | Inr sym_v \<Rightarrow>
               (case py_lower sym_v of
                  Inl e \<Rightarrow> Inl e
                | Inr symbol \<Rightarrow>
                    (case py_get base_token ''name'' (PStr []) of
                       Inl e \<Rightarrow> Inl e
                     | Inr name_v \<Rightarrow>
                         (case py_lower name_v of
                            Inl e \<Rightarrow> Inl e
                          | Inr name \<Rightarrow>
                              (let matches =
                                 length (filter (\<lambda>indicator. py_in indicator symbol \<or> py_in indicator name)
                                           social_indicators)
                               in Inr (min 1.0 (real matches * 0.2))))))))"

text \<open>\<^verbatim>\<open>float(pair_data.get('liquidity', {}).get('usd', 0))\<close>.\<close>

definition liquidity_of :: "pyenv \<Rightarrow> pyval \<Rightarrow> py_error + real" where
  "liquidity_of env pair_data =
     (case py_get pair_data ''liquidity'' (PDict []) of
        Inl e \<Rightarrow> Inl e
      | Inr liq \<Rightarrow>
          (case py_get liq ''usd'' (PInt 0) of
             Inl e \<Rightarrow> Inl e
           | Inr usd \<Rightarrow> py_float env usd))"

definition initial_analysis :: analysis where
  "initial_analysis = \<lparr>score = 0, decision = ''HOLD'', confidence = 0, reasons = []\<rparr>"

definition add_score :: "real \<Rightarrow> analysis \<Rightarrow> analysis" where
  "add_score x a = a\<lparr>score := score a + x\<rparr>"

definition add_reason_if :: "bool \<Rightarrow> string \<Rightarrow> analysis \<Rightarrow> analysis" where
  "add_reason_if c r a = (if c then a\<lparr>reasons := reasons a @ [r]\<rparr> else a)"

text \<open>The four steps of \<^verbatim>\<open>analyze_memecoin\<close> between the liquidity read and the social
  score, on the \<^verbatim>\<open>analysis\<close> dict as it stands.  \<^verbatim>\<open>analysis['score'] += x\<close> is
  \<^const>\<open>add_score\<close>, an addition of reals.\<close>

definition first_four_steps :: "pyenv \<Rightarrow> pyval \<Rightarrow> real \<Rightarrow> analysis \<Rightarrow> analysis" where
  "first_four_steps env pair_data liquidity a0 =
     (let liquidity_score = calculate_liquidity_score liquidity;
          a1 = add_score (liquidity_score * 0.3) a0;
          a2 = add_reason_if (liquidity_score > 0.7)
                 (''Good liquidity: $'' @ env_format_usd env liquidity) a1;
          price_change = calculate_price_momentum pair_data;
          a3 = add_score (price_change * 0.25) a2;
          a4 = add_reason_if (price_change > 0.7) ''Strong positive momentum'' a3;
          volume_score = analyze_volume pair_data;
          a5 = add_score (volume_score * 0.2) a4;
          a6 = add_reason_if (volume_score > 0.6) ''High trading volume'' a5;
          age_score = analyze_token_age env pair_data;
          a7 = add_score (age_score * 0.15) a6;
          a8 = add_reason_if (age_score > 0.8) ''Fresh token launch'' a7
      in a8)"

definition decide :: "analysis \<Rightarrow> analysis" where
  "decide a =
     (let a1 = a\<lparr>confidence := score a\<rparr>
      in if score a1 \<ge> 0.7 then a1\<lparr>decision := ''BUY''\<rparr>
         else if score a1 \<le> 0.3 then a1\<lparr>decision := ''SELL''\<rparr>
         else a1\<lparr>decision := ''HOLD''\<rparr>)"

text \<open>The \<^verbatim>\<open>try\<close> body of \<^verbatim>\<open>analyze_memecoin\<close>: the \<^verbatim>\<open>analysis\<close> dict as the body leaves
  it, and the exception that ended it, if one did.\<close>

definition analyze_try :: "pyenv \<Rightarrow> pyval \<Rightarrow> analysis \<times> py_error option" where
  "analyze_try env pair_data =
     (case liquidity_of env pair_data of
        Inl e \<Rightarrow> (initial_analysis, Some e)
      | Inr liquidity \<Rightarrow>
          (let a = first_four_steps env pair_data liquidity initial_analysis
           in case estimate_social_presence pair_data of
                Inl e \<Rightarrow> (a, Some e)
              | Inr social_score \<Rightarrow> (decide (add_score (social_score * 0.1) a), None)))"

definition analyze_memecoin :: "pyenv \<Rightarrow> pyval \<Rightarrow> analysis" where
  "analyze_memecoin env pair_data =
     (case analyze_try env pair_data of
        (a, None) \<Rightarrow> a
      | (a, Some e) \<Rightarrow> a\<lparr>reasons := reasons a @ [''Analysis error: '' @ env_str_exc env e]\<rparr>)"

text \<open>An environment for the worked examples: the clock stands at 0, every timestamp is
  in range, no string parses as a number, and an exception prints as its class name.\<close>

definition example_env :: pyenv where
  "example_env =
     \<lparr>env_now = 0,
      env_fromtimestamp = Some,
      env_float_of_str = (\<lambda>s. None),
      env_format_usd = (\<lambda>x. []),
      env_str_exc = (\<lambda>e. case e of
          AttributeError \<Rightarrow> ''AttributeError''
        | TypeError \<Rightarrow> ''TypeError''
        | ValueError \<Rightarrow> ''ValueError''
        | OverflowError \<Rightarrow> ''OverflowError''
        | ZeroDivisionError \<Rightarrow> ''ZeroDivisionError'')\<rparr>"

text \<open>
  Example records: two on which the social-presence step faults (a symbol that is an int,
  a name that is \<^verbatim>\<open>None\<close>), and three well-formed ones scoring 0.7, 0.3 and 0.5.

  The model adds the weighted sub-scores as reals; the code adds them as doubles, in the
  order of the steps, and the two sums can differ in the last place (sub-scores 0.2, 0.1,
  0.2, 0.5 and five keyword hits add up to 0.3 as reals and to 0.30000000000000004 as
  doubles).  Each record below is one on which the doubles add up to exactly the score
  stated for it: 0.3 + 0.225 + 0.2 + 0.075 = 0.8 and 0.06 + 0.075 + 0.04 + 0.075 = 0.25 on
  the faulting ones, 0.3 + 0.125 + 0.12 + 0.075 + 0.08 = 0.7,
  0.06 + 0.125 + 0.04 + 0.075 + 0 = 0.3 and 0.18 + 0.125 + 0.12 + 0.075 + 0 = 0.5 on the
  others.
\<close>

definition strong_record_bad_symbol :: pyval where
  "strong_record_bad_symbol =
     PDict [(''liquidity'', PDict [(''usd'', PInt 60000)]),
            (''priceChange'', PDict [(''h24'', PFloat 0.6)]),
            (''volume'', PDict [(''h24'', PInt 2000000)]),
            (''baseToken'', PDict [(''symbol'', PInt 5), (''name'', PStr ''Doge'')])]"

definition weak_record_bad_name :: pyval where
  "weak_record_bad_name = PDict [(''baseToken'', PDict [(''symbol'', PStr ''X''), (''name'', PNone)])]"

definition record_scoring_07 :: pyval where
  "record_scoring_07 =
     PDict [(''liquidity'', PDict [(''usd'', PInt 50000)]),
            (''priceChange'', PDict [(''h24'', PFloat 0.1)]),
            (''volume'', PDict [(''h24'', PInt 200000)]),
            (''baseToken'', PDict [(''symbol'', PStr ''EMDS''), (''name'', PStr ''Elon Moon DOGE shib'')])]"

definition record_scoring_03 :: pyval where
  "record_scoring_03 = PDict [(''priceChange'', PDict [(''h24'', PFloat 0.1)])]"

definition record_scoring_05 :: pyval where
  "record_scoring_05 =
     PDict [(''liquidity'', PDict [(''usd'', PInt 10000)]),
            (''priceChange'', PDict [(''h24'', PFloat 0.1)]),
            (''volume'', PDict [(''h24'', PInt 200000)])]"

section \<open>The simulated ledger\<close>

record position =
  shares :: real
  cost_basis :: real
  entry_time :: real

record trade_record =
  tr_symbol :: string
  tr_action :: string
  tr_shares :: real
  tr_price :: real
  tr_value :: real
  tr_timestamp :: real

record portfolio =
  cash :: real
  positions :: "(string \<times> position) list"
  total_value :: real

record trading_bot =
  portfolio :: portfolio
  trade_history :: "trade_record list"
  risk_per_trade :: real

text \<open>What \<^verbatim>\<open>execute_trade\<close> returns: a trade record, or the dict
  \<^verbatim>\<open>{'error': 'Trade execution failed'}\<close>.\<close>

datatype trade_result = Trade trade_record | TradeError string

definition init_bot :: "real \<Rightarrow> trading_bot" where
  "init_bot initial_capital =
     \<lparr>portfolio = \<lparr>cash = initial_capital, positions = [], total_value = initial_capital\<rparr>,
      trade_history = [],
      risk_per_trade = 0.02\<rparr>"

text \<open>
  A method of the bot returns its result (\<open>Inl\<close> the exception it raised) and the bot
  as the call leaves it.  Python raises \<^verbatim>\<open>ZeroDivisionError\<close> on a division by zero, so
  each division is guarded by a test of its divisor.
\<close>

definition calculate_position_size ::
  "trading_bot \<Rightarrow> string \<Rightarrow> real \<Rightarrow> real \<Rightarrow> (py_error + real) \<times> trading_bot" where
  "calculate_position_size b symbol price stop_loss =
     (let risk_amount = cash (portfolio b) * risk_per_trade b;
          price_risk = \<bar>price - stop_loss\<bar>
      in if price_risk = 0 then (Inr 0, b)
         else
           (let n_shares = risk_amount / price_risk;
                max_position_value = cash (portfolio b) * 0.1
            in if price = 0 then (Inl ZeroDivisionError, b)
               else
                 (let max_shares = max_position_value / price
                  in (Inr (min n_shares max_shares), b))))"

definition set_positions :: "(string \<times> position) list \<Rightarrow> trading_bot \<Rightarrow> trading_bot" where
  "set_positions ps b = b\<lparr>portfolio := (portfolio b)\<lparr>positions := ps\<rparr>\<rparr>"

definition set_cash :: "real \<Rightarrow> trading_bot \<Rightarrow> trading_bot" where
  "set_cash c b = b\<lparr>portfolio := (portfolio b)\<lparr>cash := c\<rparr>\<rparr>"

text \<open>\<^verbatim>\<open>self.trade_history.append(trade_record); return trade_record\<close>.\<close>

definition append_trade ::
  "trade_record \<Rightarrow> trading_bot \<Rightarrow> (py_error + trade_result) \<times> trading_bot" where
  "append_trade r b = (Inr (Trade r), b\<lparr>trade_history := trade_history b @ [r]\<rparr>)"

text \<open>The BUY branch, entered with \<open>trade_value \<le> cash\<close>.  On a symbol already held the
  shares are raised first and the cost basis is recomputed from the raised shares; a sum
  of zero shares makes that division raise, after the cash and the shares were written.\<close>

definition buy_branch ::
  "trading_bot \<Rightarrow> real \<Rightarrow> string \<Rightarrow> real \<Rightarrow> real \<Rightarrow> (py_error + trade_result) \<times> trading_bot" where
  "buy_branch b now symbol price amount =
     (let trade_value = amount * price;
          b1 = set_cash (cash (portfolio b) - trade_value) b;
          trade = \<lparr>tr_symbol = symbol, tr_action = ''BUY'', tr_shares = amount,
                    tr_price = price, tr_value = trade_value, tr_timestamp = now\<rparr>
      in case map_of (positions (portfolio b1)) symbol of
           Some pos \<Rightarrow>
             (let pos1 = pos\<lparr>shares := shares pos + amount\<rparr>;
                  b2 = set_positions (AList.update symbol pos1 (positions (portfolio b1))) b1
              in if shares pos1 = 0 then (Inl ZeroDivisionError, b2)
                 else
                   (let pos2 = pos1\<lparr>cost_basis :=
                                  (cost_basis pos1 * (shares pos1 - amount) + trade_value)
                                    / shares pos1\<rparr>;
                        b3 = set_positions (AList.update symbol pos2 (positions (portfolio b2))) b2
                    in append_trade trade b3))
         | None \<Rightarrow>
             (let pos = \<lparr>shares = amount, cost_basis = price, entry_time = now\<rparr>;
                  b2 = set_positions (AList.update symbol pos (positions (portfolio b1))) b1
              in append_trade trade b2))"

text \<open>The SELL branch, entered with the symbol among the positions (\<open>pos\<close> its entry).\<close>

definition sell_branch ::
  "trading_bot \<Rightarrow> real \<Rightarrow> string \<Rightarrow> position \<Rightarrow> real \<Rightarrow> real
     \<Rightarrow> (py_error + trade_result) \<times> trading_bot" where
  "sell_branch b now symbol pos price amount0 =
     (let amount = (if amount0 > shares pos then shares pos else amount0);
          trade_value = amount * price;
          b1 = set_cash (cash (portfolio b) + trade_value) b;
          pos1 = pos\<lparr>shares := shares pos - amount\<rparr>;
          b2 = set_positions (AList.update symbol pos1 (positions (portfolio b1))) b1;
          b3 = (if shares pos1 = 0
                then set_positions (AList.delete symbol (positions (portfolio b2))) b2
                else b2);
          trade = \<lparr>tr_symbol = symbol, tr_action = ''SELL'', tr_shares = amount,
                    tr_price = price, tr_value = trade_value, tr_timestamp = now\<rparr>
      in append_trade trade b3)"

text \<open>\<^verbatim>\<open>execute_trade\<close>; \<open>action\<close> is its argument \<^verbatim>\<open>decision\<close>, and \<open>now\<close> is what
  \<^verbatim>\<open>datetime.now()\<close> reads during the call.\<close>

definition execute_trade ::
  "trading_bot \<Rightarrow> real \<Rightarrow> string \<Rightarrow> string \<Rightarrow> real \<Rightarrow> real
     \<Rightarrow> (py_error + trade_result) \<times> trading_bot" where
  "execute_trade b now symbol action price amount =
     (let trade_value = amount * price
      in if action = ''BUY'' \<and> trade_value \<le> cash (portfolio b)
         then buy_branch b now symbol price amount
         else
           (case (if action = ''SELL'' then map_of (positions (portfolio b)) symbol else None) of
              Some pos \<Rightarrow> sell_branch b now symbol pos price amount
            | None \<Rightarrow> (Inr (TradeError ''Trade execution failed''), b)))"

text \<open>A sequence of calls \<open>(now, symbol, action, price, amount)\<close>, each on the bot the
  call before left.\<close>

fun run_trades ::
  "trading_bot \<Rightarrow> (real \<times> string \<times> string \<times> real \<times> real) list \<Rightarrow> trading_bot" where
  "run_trades b [] = b"
| "run_trades b ((now, symbol, action, price, amount) # calls) =
     run_trades (snd (execute_trade b now symbol action price amount)) calls"

definition get_portfolio_value :: "trading_bot \<Rightarrow> real \<times> trading_bot" where
  "get_portfolio_value b =
     (foldl (\<lambda>total (symbol, pos). total + shares pos * cost_basis pos)
        (cash (portfolio b)) (positions (portfolio b)),
      b)"

text \<open>Example ledgers, each reached from an initial capital of 1000: one BUY of 5 shares
  of X at 10; one BUY of 0 shares of X at 10; a BUY of 5 X at 10 and a BUY of 2 Y at 20.\<close>

definition holding_five :: trading_bot where
  "holding_five = run_trades (init_bot 1000) [(1, ''X'', ''BUY'', 10, 5)]"

definition holding_zero :: trading_bot where
  "holding_zero = run_trades (init_bot 1000) [(1, ''X'', ''BUY'', 10, 0)]"

definition two_positions :: trading_bot where
  "two_positions = run_trades (init_bot 1000) [(1, ''X'', ''BUY'', 10, 5), (2, ''Y'', ''BUY'', 20, 2)]"

text \<open>Every position of the ledger has a positive number of shares.\<close>

definition shares_positive :: "trading_bot \<Rightarrow> bool" where
  "shares_positive b = (\<forall>(symbol, pos) \<in> set (positions (portfolio b)). shares pos > 0)"

section \<open>Properties of the scoring engine\<close>

lemma add_reason_if_fields:
  "score (add_reason_if c r a) = score a"
  "decision (add_reason_if c r a) = decision a"
  "confidence (add_reason_if c r a) = confidence a"
  by (simp_all add: add_reason_if_def)

lemma add_score_fields:
  "score (add_score x a) = score a + x"
  "decision (add_score x a) = decision a"
  "confidence (add_score x a) = confidence a"
  "reasons (add_score x a) = reasons a"
  by (simp_all add: add_score_def)

lemma score_first_four_steps:
  "score (first_four_steps env pd l a) =
     score a + calculate_liquidity_score l * 0.3 + calculate_price_momentum pd * 0.25
       + analyze_volume pd * 0.2 + analyze_token_age env pd * 0.15"
  by (simp add: first_four_steps_def Let_def add_reason_if_fields add_score_fields)

lemma decision_first_four_steps:
  "decision (first_four_steps env pd l a) = decision a"
  by (simp add: first_four_steps_def Let_def add_reason_if_fields add_score_fields)

lemma confidence_first_four_steps:
  "confidence (first_four_steps env pd l a) = confidence a"
  by (simp add: first_four_steps_def Let_def add_reason_if_fields add_score_fields)

lemma decide_fields:
  "score (decide a) = score a"
  "confidence (decide a) = score a"
  "reasons (decide a) = reasons a"
  by (simp_all add: decide_def Let_def)

lemma decision_decide:
  "decision (decide a) =
     (if score a \<ge> 0.7 then ''BUY'' else if score a \<le> 0.3 then ''SELL'' else ''HOLD'')"
  by (simp add: decide_def Let_def)

lemma analyze_memecoin_liquidity_fault:
  "liquidity_of env pd = Inl e \<Longrightarrow>
   analyze_memecoin env pd =
     \<lparr>score = 0, decision = ''HOLD'', confidence = 0,
      reasons = [''Analysis error: '' @ env_str_exc env e]\<rparr>"
  by (simp add: analyze_memecoin_def analyze_try_def initial_analysis_def)

lemma analyze_memecoin_social_fault:
  "liquidity_of env pd = Inr l \<Longrightarrow> estimate_social_presence pd = Inl e \<Longrightarrow>
   analyze_memecoin env pd =
     (first_four_steps env pd l initial_analysis)
       \<lparr>reasons := reasons (first_four_steps env pd l initial_analysis)
                    @ [''Analysis error: '' @ env_str_exc env e]\<rparr>"
  by (simp add: analyze_memecoin_def analyze_try_def Let_def)

lemma analyze_memecoin_no_fault:
  "liquidity_of env pd = Inr l \<Longrightarrow> estimate_social_presence pd = Inr s \<Longrightarrow>
   analyze_memecoin env pd =
     decide (add_score (s * 0.1) (first_four_steps env pd l initial_analysis))"
  by (simp add: analyze_memecoin_def analyze_try_def Let_def)

text \<open>
  Claim C1.  \<^verbatim>\<open>analyze_memecoin\<close> returns an analysis on every input record and every
  runtime environment.  The body of its \<^verbatim>\<open>try\<close> can fault at two places only, the
  liquidity read and the social-presence step.  A fault at the liquidity read gives score
  0; a fault at the social step gives the weighted sum of the four sub-scores computed
  before it, the social sub-score contributing 0; in both cases the reason
  \<^verbatim>\<open>Analysis error: ...\<close> of the fault is appended last.  Without a fault the score is
  the sum of all five weighted sub-scores.  Every input falls under one of the three cases.
\<close>

theorem analyze_memecoin_never_raises:
  "(\<forall>e. liquidity_of env pd = Inl e \<longrightarrow>
      analyze_memecoin env pd =
        \<lparr>score = 0, decision = ''HOLD'', confidence = 0,
         reasons = [''Analysis error: '' @ env_str_exc env e]\<rparr>)
   \<and> (\<forall>l e. liquidity_of env pd = Inr l \<and> estimate_social_presence pd = Inl e \<longrightarrow>
      score (analyze_memecoin env pd) =
        calculate_liquidity_score l * 0.3 + calculate_price_momentum pd * 0.25
          + analyze_volume pd * 0.2 + analyze_token_age env pd * 0.15
      \<and> reasons (analyze_memecoin env pd) =
        reasons (first_four_steps env pd l initial_analysis)
          @ [''Analysis error: '' @ env_str_exc env e])
   \<and> (\<forall>l s. liquidity_of env pd = Inr l \<and> estimate_social_presence pd = Inr s \<longrightarrow>
      score (analyze_memecoin env pd) =
        calculate_liquidity_score l * 0.3 + calculate_price_momentum pd * 0.25
          + analyze_volume pd * 0.2 + analyze_token_age env pd * 0.15 + s * 0.1
      \<and> reasons (analyze_memecoin env pd) =
        reasons (first_four_steps env pd l initial_analysis))
   \<and> ((\<exists>e. liquidity_of env pd = Inl e)
      \<or> (\<exists>l e. liquidity_of env pd = Inr l \<and> estimate_social_presence pd = Inl e)
      \<or> (\<exists>l s. liquidity_of env pd = Inr l \<and> estimate_social_presence pd = Inr s))"
proof (intro conjI allI impI)
  show "(\<exists>e. liquidity_of env pd = Inl e)
      \<or> (\<exists>l e. liquidity_of env pd = Inr l \<and> estimate_social_presence pd = Inl e)
      \<or> (\<exists>l s. liquidity_of env pd = Inr l \<and> estimate_social_presence pd = Inr s)"
    by (cases "liquidity_of env pd"; cases "estimate_social_presence pd"; simp)
next
  fix e assume "liquidity_of env pd = Inl e"
  then show "analyze_memecoin env pd =
        \<lparr>score = 0, decision = ''HOLD'', confidence = 0,
         reasons = [''Analysis error: '' @ env_str_exc env e]\<rparr>"
    by (rule analyze_memecoin_liquidity_fault)
next
  fix l e assume h: "liquidity_of env pd = Inr l \<and> estimate_social_presence pd = Inl e"
  then have eq: "analyze_memecoin env pd =
     (first_four_steps env pd l initial_analysis)
       \<lparr>reasons := reasons (first_four_steps env pd l initial_analysis)
                    @ [''Analysis error: '' @ env_str_exc env e]\<rparr>"
    by (simp add: analyze_memecoin_social_fault)
  show "score (analyze_memecoin env pd) =
        calculate_liquidity_score l * 0.3 + calculate_price_momentum pd * 0.25
          + analyze_volume pd * 0.2 + analyze_token_age env pd * 0.15"
    by (simp add: eq score_first_four_steps initial_analysis_def)
  show "reasons (analyze_memecoin env pd) =
        reasons (first_four_steps env pd l initial_analysis)
          @ [''Analysis error: '' @ env_str_exc env e]"
    by (simp add: eq)
next
  fix l s assume h: "liquidity_of env pd = Inr l \<and> estimate_social_presence pd = Inr s"
  then have eq: "analyze_memecoin env pd =
     decide (add_score (s * 0.1) (first_four_steps env pd l initial_analysis))"
    by (simp add: analyze_memecoin_no_fault)
  show "score (analyze_memecoin env pd) =
        calculate_liquidity_score l * 0.3 + calculate_price_momentum pd * 0.25
          + analyze_volume pd * 0.2 + analyze_token_age env pd * 0.15 + s * 0.1"
    by (simp add: eq decide_fields add_score_fields score_first_four_steps initial_analysis_def)
  show "reasons (analyze_memecoin env pd) =
        reasons (first_four_steps env pd l initial_analysis)"
    by (simp add: eq decide_fields add_score_fields)
qed

text \<open>Two malformed records: a \<^verbatim>\<open>liquidity\<close> that is not a dict, and a
  \<^verbatim>\<open>baseToken\<close> symbol that is not a string.\<close>

lemma liquidity_of_non_dict:
  "liquidity_of example_env (PDict [(''liquidity'', PInt 5)]) = Inl AttributeError"
  by (simp add: liquidity_of_def)

lemma liquidity_of_absent:
  "liquidity_of env (PDict [(''baseToken'', PDict [(''symbol'', PInt 5)])]) = Inr 0"
  by (simp add: liquidity_of_def)

lemma social_non_string:
  "estimate_social_presence (PDict [(''baseToken'', PDict [(''symbol'', PInt 5)])]) = Inl AttributeError"
  by (simp add: estimate_social_presence_def)

lemma subscores_bad_symbol:
  "calculate_price_momentum (PDict [(''baseToken'', PDict [(''symbol'', PInt 5)])]) = 0.3"
  "analyze_volume (PDict [(''baseToken'', PDict [(''symbol'', PInt 5)])]) = 0.2"
  "analyze_token_age env (PDict [(''baseToken'', PDict [(''symbol'', PInt 5)])]) = 0.5"
  by (simp_all add: calculate_price_momentum_def price_momentum_try_def analyze_volume_def volume_try_def
    analyze_token_age_def token_age_try_def)

lemma example_env_str_exc:
  "env_str_exc example_env AttributeError = ''AttributeError''"
  by (simp add: example_env_def)

theorem analyze_memecoin_never_raises_witness:
  "analyze_memecoin example_env (PDict [(''liquidity'', PInt 5)]) =
     \<lparr>score = 0, decision = ''HOLD'', confidence = 0,
      reasons = [''Analysis error: AttributeError'']\<rparr>
   \<and> score (analyze_memecoin example_env (PDict [(''baseToken'', PDict [(''symbol'', PInt 5)])])) = 1 / 4
   \<and> reasons (analyze_memecoin example_env (PDict [(''baseToken'', PDict [(''symbol'', PInt 5)])]))
       = [''Analysis error: AttributeError'']"
proof -
  let ?p = "PDict [(''baseToken'', PDict [(''symbol'', PInt 5)])]"
  let ?q = "PDict [(''liquidity'', PInt 5)]"
  have r: "reasons (first_four_steps example_env ?p 0 initial_analysis) = []"
    by (simp add: first_four_steps_def Let_def add_reason_if_def add_score_def initial_analysis_def
       subscores_bad_symbol calculate_liquidity_score_def)
  have "analyze_memecoin example_env ?q =
     \<lparr>score = 0, decision = ''HOLD'', confidence = 0,
      reasons = [''Analysis error: '' @ env_str_exc example_env AttributeError]\<rparr>"
    using analyze_memecoin_never_raises [of example_env ?q] liquidity_of_non_dict by blast
  moreover have "score (analyze_memecoin example_env ?p) =
        calculate_liquidity_score 0 * 0.3 + calculate_price_momentum ?p * 0.25
          + analyze_volume ?p * 0.2 + analyze_token_age example_env ?p * 0.15
      \<and> reasons (analyze_memecoin example_env ?p) =
        reasons (first_four_steps example_env ?p 0 initial_analysis)
          @ [''Analysis error: '' @ env_str_exc example_env AttributeError]"
    using analyze_memecoin_never_raises [of example_env ?p] liquidity_of_absent social_non_string
    by blast
  ultimately show ?thesis
    by (simp add: subscores_bad_symbol r calculate_liquidity_score_def example_env_str_exc)
qed

lemmas scoring_defs =
  analyze_memecoin_def analyze_try_def liquidity_of_def first_four_steps_def decide_def
  add_score_def add_reason_if_def initial_analysis_def calculate_liquidity_score_def
  calculate_price_momentum_def price_momentum_try_def analyze_volume_def volume_try_def
  analyze_token_age_def token_age_try_def estimate_social_presence_def social_indicators_def
  lower_char_def example_env_def Let_def

lemma analyze_strong_record_bad_symbol:
  "analyze_memecoin example_env strong_record_bad_symbol =
     \<lparr>score = 4 / 5, decision = ''HOLD'', confidence = 0,
      reasons = [''Good liquidity: $'', ''Strong positive momentum'', ''High trading volume'',
                 ''Analysis error: AttributeError'']\<rparr>"
  by (simp add: strong_record_bad_symbol_def scoring_defs)

lemma analyze_weak_record_bad_name:
  "analyze_memecoin example_env weak_record_bad_name =
     \<lparr>score = 1 / 4, decision = ''HOLD'', confidence = 0,
      reasons = [''Analysis error: AttributeError'']\<rparr>"
  by (simp add: weak_record_bad_name_def scoring_defs)

lemma analyze_record_scoring_07:
  "analyze_memecoin example_env record_scoring_07 =
     \<lparr>score = 7 / 10, decision = ''BUY'', confidence = 7 / 10,
      reasons = [''Good liquidity: $'']\<rparr>"
  by (simp add: record_scoring_07_def scoring_defs)

lemma analyze_record_scoring_03:
  "analyze_memecoin example_env record_scoring_03 =
     \<lparr>score = 3 / 10, decision = ''SELL'', confidence = 3 / 10, reasons = []\<rparr>"
  by (simp add: record_scoring_03_def scoring_defs)

lemma analyze_record_scoring_05:
  "analyze_memecoin example_env record_scoring_05 =
     \<lparr>score = 1 / 2, decision = ''HOLD'', confidence = 1 / 2, reasons = []\<rparr>"
  by (simp add: record_scoring_05_def scoring_defs)

lemma fault_strong_record_bad_symbol:
  "snd (analyze_try example_env strong_record_bad_symbol) = Some AttributeError"
  by (simp add: strong_record_bad_symbol_def scoring_defs)

lemma fault_weak_record_bad_name:
  "snd (analyze_try example_env weak_record_bad_name) = Some AttributeError"
  by (simp add: weak_record_bad_name_def scoring_defs)

lemma no_fault_examples:
  "snd (analyze_try example_env record_scoring_07) = None"
  "snd (analyze_try example_env record_scoring_03) = None"
  "snd (analyze_try example_env record_scoring_05) = None"
  by (simp_all add: record_scoring_07_def record_scoring_03_def record_scoring_05_def scoring_defs)

lemma analyze_try_fault_cases:
  assumes "snd (analyze_try env pd) = Some e"
  shows "liquidity_of env pd = Inl e
     \<or> (\<exists>l. liquidity_of env pd = Inr l \<and> estimate_social_presence pd = Inl e)"
  using assms by (auto simp: analyze_try_def Let_def split: sum.splits)

lemma analyze_try_no_fault_cases:
  assumes "snd (analyze_try env pd) = None"
  shows "\<exists>l s. liquidity_of env pd = Inr l \<and> estimate_social_presence pd = Inr s"
  using assms by (auto simp: analyze_try_def Let_def split: sum.splits)

text \<open>
  Claim C10.  When a fault ends the \<^verbatim>\<open>try\<close> body of \<^verbatim>\<open>analyze_memecoin\<close>, the returned
  analysis keeps the decision \<^verbatim>\<open>HOLD\<close> and the confidence 0 it was initialised with,
  whatever partial score was accumulated.
\<close>

theorem analyze_memecoin_fault_keeps_hold:
  assumes "snd (analyze_try env pd) = Some e"
  shows "decision (analyze_memecoin env pd) = ''HOLD''
       \<and> confidence (analyze_memecoin env pd) = 0"
  using analyze_try_fault_cases [OF assms]
proof (elim disjE exE conjE)
  assume "liquidity_of env pd = Inl e"
  then show ?thesis by (simp add: analyze_memecoin_liquidity_fault)
next
  fix l assume "liquidity_of env pd = Inr l" "estimate_social_presence pd = Inl e"
  then show ?thesis
    by (simp add: analyze_memecoin_social_fault decision_first_four_steps
        confidence_first_four_steps initial_analysis_def)
qed

text \<open>A fault after a partial score of 0.8 (above the BUY threshold) and one after a
  partial score of 0.25 (below the SELL threshold).\<close>

theorem analyze_memecoin_fault_keeps_hold_witness:
  "score (analyze_memecoin example_env strong_record_bad_symbol) = 4 / 5
   \<and> decision (analyze_memecoin example_env strong_record_bad_symbol) = ''HOLD''
   \<and> confidence (analyze_memecoin example_env strong_record_bad_symbol) = 0
   \<and> score (analyze_memecoin example_env weak_record_bad_name) = 1 / 4
   \<and> decision (analyze_memecoin example_env weak_record_bad_name) = ''HOLD''
   \<and> confidence (analyze_memecoin example_env weak_record_bad_name) = 0"
  using analyze_memecoin_fault_keeps_hold [OF fault_strong_record_bad_symbol]
    analyze_memecoin_fault_keeps_hold [OF fault_weak_record_bad_name]
  by (simp add: analyze_strong_record_bad_symbol analyze_weak_record_bad_name)

text \<open>
  Claim C6 as stated fails: on a record whose social-presence step faults after a partial
  score of 0.8, the returned score is at least 0.7 and the decision is \<^verbatim>\<open>HOLD\<close>.
\<close>

theorem decision_rule_counterexample:
  "0.7 \<le> score (analyze_memecoin example_env strong_record_bad_symbol)
   \<and> decision (analyze_memecoin example_env strong_record_bad_symbol) = ''HOLD''
   \<and> decision (analyze_memecoin example_env strong_record_bad_symbol) \<noteq> ''BUY''"
  by (simp add: analyze_strong_record_bad_symbol)

text \<open>
  Claim C6, amended.  On every input record on which no fault ends the \<^verbatim>\<open>try\<close> body, the
  decision follows the rule on the final score: \<^verbatim>\<open>BUY\<close> iff the score is at least 0.7,
  \<^verbatim>\<open>SELL\<close> iff it is at most 0.3, \<^verbatim>\<open>HOLD\<close> iff it lies strictly between.
\<close>

theorem decision_rule_without_fault:
  assumes "snd (analyze_try env pd) = None"
  shows "(decision (analyze_memecoin env pd) = ''BUY'' \<longleftrightarrow> score (analyze_memecoin env pd) \<ge> 0.7)
       \<and> (decision (analyze_memecoin env pd) = ''SELL'' \<longleftrightarrow> score (analyze_memecoin env pd) \<le> 0.3)
       \<and> (decision (analyze_memecoin env pd) = ''HOLD'' \<longleftrightarrow>
            0.3 < score (analyze_memecoin env pd) \<and> score (analyze_memecoin env pd) < 0.7)"
proof -
  from analyze_try_no_fault_cases [OF assms] obtain l s
    where "liquidity_of env pd = Inr l" "estimate_social_presence pd = Inr s" by blast
  then have eq: "analyze_memecoin env pd =
     decide (add_score (s * 0.1) (first_four_steps env pd l initial_analysis))"
    by (rule analyze_memecoin_no_fault)
  show ?thesis
    unfolding eq by (simp add: decide_fields decision_decide)
qed

text \<open>The three well-formed example records: a score of exactly 0.7 is a BUY, one of
  exactly 0.3 (liquidity and volume absent, a 24h change of 0.1, no creation time, no
  keyword) is a SELL, and 0.5 is a HOLD.\<close>

theorem decision_rule_without_fault_witness:
  "score (analyze_memecoin example_env record_scoring_07) = 0.7
   \<and> decision (analyze_memecoin example_env record_scoring_07) = ''BUY''
   \<and> score (analyze_memecoin example_env record_scoring_03) = 0.3
   \<and> decision (analyze_memecoin example_env record_scoring_03) = ''SELL''
   \<and> score (analyze_memecoin example_env record_scoring_05) = 0.5
   \<and> decision (analyze_memecoin example_env record_scoring_05) = ''HOLD''"
proof -
  have s: "score (analyze_memecoin example_env record_scoring_07) = 0.7"
    "score (analyze_memecoin example_env record_scoring_03) = 0.3"
    "score (analyze_memecoin example_env record_scoring_05) = 0.5"
    by (simp_all add: analyze_record_scoring_07 analyze_record_scoring_03
        analyze_record_scoring_05)
  show ?thesis
    using decision_rule_without_fault [OF no_fault_examples(1)]
      decision_rule_without_fault [OF no_fault_examples(2)]
      decision_rule_without_fault [OF no_fault_examples(3)]
    by (simp add: s)
qed

text \<open>
  Claim C7 as stated fails: on a record whose social-presence step faults, the score is the
  partial sum 0.25 and the confidence is still 0.
\<close>

theorem confidence_is_score_counterexample:
  "confidence (analyze_memecoin example_env weak_record_bad_name)
     \<noteq> score (analyze_memecoin example_env weak_record_bad_name)"
  by (simp add: analyze_weak_record_bad_name)

text \<open>
  Claim C7, amended.  On every input record on which no fault ends the \<^verbatim>\<open>try\<close> body, the
  confidence of the returned analysis equals its score.
\<close>

theorem confidence_is_score_without_fault:
  assumes "snd (analyze_try env pd) = None"
  shows "confidence (analyze_memecoin env pd) = score (analyze_memecoin env pd)"
proof -
  from analyze_try_no_fault_cases [OF assms] obtain l s
    where "liquidity_of env pd = Inr l" "estimate_social_presence pd = Inr s" by blast
  then have "analyze_memecoin env pd =
     decide (add_score (s * 0.1) (first_four_steps env pd l initial_analysis))"
    by (rule analyze_memecoin_no_fault)
  then show ?thesis by (simp add: decide_fields)
qed

theorem confidence_is_score_without_fault_witness:
  "confidence (analyze_memecoin example_env record_scoring_07) = 7 / 10"
proof -
  have "score (analyze_memecoin example_env record_scoring_07) = 7 / 10"
    by (simp add: analyze_record_scoring_07)
  with confidence_is_score_without_fault [OF no_fault_examples(1)] show ?thesis
    by simp
qed

section \<open>Properties of the ledger\<close>

lemma set_cash_fields:
  "cash (portfolio (set_cash c b)) = c"
  "positions (portfolio (set_cash c b)) = positions (portfolio b)"
  "trade_history (set_cash c b) = trade_history b"
  by (simp_all add: set_cash_def)

lemma set_positions_fields:
  "cash (portfolio (set_positions ps b)) = cash (portfolio b)"
  "positions (portfolio (set_positions ps b)) = ps"
  "trade_history (set_positions ps b) = trade_history b"
  by (simp_all add: set_positions_def)

lemma append_trade_fields:
  "fst (append_trade r b) = Inr (Trade r)"
  "cash (portfolio (snd (append_trade r b))) = cash (portfolio b)"
  "positions (portfolio (snd (append_trade r b))) = positions (portfolio b)"
  "trade_history (snd (append_trade r b)) = trade_history b @ [r]"
  by (simp_all add: append_trade_def)

lemmas ledger_fields = set_cash_fields set_positions_fields append_trade_fields

lemmas ledger_defs =
  execute_trade_def buy_branch_def sell_branch_def append_trade_def set_cash_def
  set_positions_def init_bot_def Let_def

text \<open>
  Claim C2.  A BUY whose \<open>amount * price\<close> exceeds the cash, a SELL of a symbol that is
  not among the positions, and every decision other than \<^verbatim>\<open>BUY\<close> and \<^verbatim>\<open>SELL\<close> return the
  error result without raising and leave the whole bot as it was: cash, positions and
  trade history.
\<close>

theorem execute_trade_rejection:
  assumes "(action = ''BUY'' \<and> amount * price > cash (portfolio b))
         \<or> (action = ''SELL'' \<and> map_of (positions (portfolio b)) symbol = None)
         \<or> (action \<noteq> ''BUY'' \<and> action \<noteq> ''SELL'')"
  shows "execute_trade b now symbol action price amount
           = (Inr (TradeError ''Trade execution failed''), b)"
  using assms by (auto simp: execute_trade_def Let_def)

text \<open>With cash 100: a BUY of 1000 at 10, a SELL of a symbol not held, and a decision
  \<^verbatim>\<open>HOLD\<close>.\<close>

theorem execute_trade_rejection_witness:
  "execute_trade (init_bot 100) 0 ''Y'' ''BUY'' 10 1000
     = (Inr (TradeError ''Trade execution failed''), init_bot 100)
   \<and> cash (portfolio (snd (execute_trade (init_bot 100) 0 ''Y'' ''BUY'' 10 1000))) = 100
   \<and> trade_history (snd (execute_trade (init_bot 100) 0 ''Y'' ''BUY'' 10 1000)) = []
   \<and> execute_trade (init_bot 100) 0 ''Y'' ''SELL'' 10 1
     = (Inr (TradeError ''Trade execution failed''), init_bot 100)
   \<and> execute_trade (init_bot 100) 0 ''Y'' ''HOLD'' 10 1
     = (Inr (TradeError ''Trade execution failed''), init_bot 100)"
proof -
  have "cash (portfolio (init_bot 100)) < 1000 * 10"
    "map_of (positions (portfolio (init_bot 100))) ''Y'' = None"
    "''HOLD'' \<noteq> ''BUY'' \<and> ''HOLD'' \<noteq> ''SELL''"
    by (simp_all add: init_bot_def)
  then show ?thesis
    using execute_trade_rejection
        [where action = "''BUY''" and amount = 1000 and price = 10 and b = "init_bot 100"
           and symbol = "''Y''" and now = 0]
      execute_trade_rejection
        [where action = "''SELL''" and amount = 1 and price = 10 and b = "init_bot 100"
           and symbol = "''Y''" and now = 0]
      execute_trade_rejection
        [where action = "''HOLD''" and amount = 1 and price = 10 and b = "init_bot 100"
           and symbol = "''Y''" and now = 0]
    by (simp add: init_bot_def)
qed

text \<open>
  Claim C5.  A SELL of a held symbol returns its trade record for every amount: the amount
  sold is \<open>min amount shares\<close>; the cash rises by that amount times the price; the
  position loses that many shares and is deleted when none are left; the record, appended
  to the history and returned, carries the clamped amount and its value.
\<close>

theorem execute_trade_sell:
  assumes "map_of (positions (portfolio b)) symbol = Some pos"
  shows "(let eff = min amount (shares pos);
              trade = \<lparr>tr_symbol = symbol, tr_action = ''SELL'', tr_shares = eff,
                        tr_price = price, tr_value = eff * price, tr_timestamp = now\<rparr>;
              res = execute_trade b now symbol ''SELL'' price amount
          in fst res = Inr (Trade trade)
           \<and> cash (portfolio (snd res)) = cash (portfolio b) + eff * price
           \<and> map_of (positions (portfolio (snd res))) symbol =
               (if shares pos - eff = 0 then None
                else Some (pos\<lparr>shares := shares pos - eff\<rparr>))
           \<and> trade_history (snd res) = trade_history b @ [trade])"
proof -
  have e: "execute_trade b now symbol ''SELL'' price amount
             = sell_branch b now symbol pos price amount"
    using assms by (simp add: execute_trade_def)
  have m: "(if shares pos < amount then shares pos else amount) = min amount (shares pos)"
    by (simp add: min_def)
  show ?thesis
    unfolding e Let_def sell_branch_def m
    by (simp add: ledger_fields AList.update_conv' AList.delete_conv')
qed

lemma execute_trade_buy_effect:
  assumes "amount * price \<le> cash (portfolio b)"
    and "\<forall>pos. map_of (positions (portfolio b)) symbol = Some pos \<longrightarrow> shares pos + amount \<noteq> 0"
  shows "(let trade = \<lparr>tr_symbol = symbol, tr_action = ''BUY'', tr_shares = amount,
                        tr_price = price, tr_value = amount * price, tr_timestamp = now\<rparr>;
              res = execute_trade b now symbol ''BUY'' price amount
          in fst res = Inr (Trade trade)
           \<and> cash (portfolio (snd res)) = cash (portfolio b) - amount * price
           \<and> map_of (positions (portfolio (snd res))) symbol =
               Some (case map_of (positions (portfolio b)) symbol of
                       None \<Rightarrow> \<lparr>shares = amount, cost_basis = price, entry_time = now\<rparr>
                     | Some pos \<Rightarrow>
                         pos\<lparr>shares := shares pos + amount,
                             cost_basis := (cost_basis pos * shares pos + amount * price)
                                             / (shares pos + amount)\<rparr>)
           \<and> trade_history (snd res) = trade_history b @ [trade])"
proof -
  have e: "execute_trade b now symbol ''BUY'' price amount = buy_branch b now symbol price amount"
    using assms(1) by (simp add: execute_trade_def)
  show ?thesis
  proof (cases "map_of (positions (portfolio b)) symbol")
    case None
    then show ?thesis
      unfolding e Let_def buy_branch_def
      by (simp add: ledger_fields AList.update_conv')
  next
    case (Some pos)
    with assms(2) have "shares pos + amount \<noteq> 0" by simp
    with Some show ?thesis
      unfolding e Let_def buy_branch_def
      by (simp add: ledger_fields AList.update_conv')
  qed
qed

lemma two_equal_buys:
  "run_trades (init_bot 1000) [(t1, ''X'', ''BUY'', 10, 5), (t2, ''X'', ''BUY'', 10, 5)] =
     \<lparr>portfolio = \<lparr>cash = 900,
                   positions = [(''X'', \<lparr>shares = 10, cost_basis = 10, entry_time = t1\<rparr>)],
                   total_value = 1000\<rparr>,
      trade_history = [\<lparr>tr_symbol = ''X'', tr_action = ''BUY'', tr_shares = 5, tr_price = 10,
                        tr_value = 50, tr_timestamp = t1\<rparr>,
                       \<lparr>tr_symbol = ''X'', tr_action = ''BUY'', tr_shares = 5, tr_price = 10,
                        tr_value = 50, tr_timestamp = t2\<rparr>],
      risk_per_trade = 0.02\<rparr>"
  by (simp add: ledger_defs)

text \<open>
  Claim C4, amended.  A BUY with \<open>amount * price \<le> cash\<close> on a symbol that is not held, or
  is held with \<open>oldShares + amount \<noteq> 0\<close>, returns its trade record: the cash falls by
  \<open>amount * price\<close>; a held position gets \<open>oldShares + amount\<close> shares and the cost basis
  \<open>(oldCostBasis * oldShares + amount * price) / (oldShares + amount)\<close>; a new position
  gets \<open>amount\<close> shares at cost basis \<open>price\<close>; and the one record appended to the
  history is the one returned.  Two BUYs of 5 at 10 from a capital of 1000 leave 10 shares
  at cost basis 10 and cash 900.
\<close>

theorem execute_trade_buy:
  "(amount * price \<le> cash (portfolio b)
      \<and> (\<forall>pos. map_of (positions (portfolio b)) symbol = Some pos \<longrightarrow> shares pos + amount \<noteq> 0)
    \<longrightarrow>
      (let trade = \<lparr>tr_symbol = symbol, tr_action = ''BUY'', tr_shares = amount,
                     tr_price = price, tr_value = amount * price, tr_timestamp = now\<rparr>;
           res = execute_trade b now symbol ''BUY'' price amount
       in fst res = Inr (Trade trade)
        \<and> cash (portfolio (snd res)) = cash (portfolio b) - amount * price
        \<and> map_of (positions (portfolio (snd res))) symbol =
            Some (case map_of (positions (portfolio b)) symbol of
                    None \<Rightarrow> \<lparr>shares = amount, cost_basis = price, entry_time = now\<rparr>
                  | Some pos \<Rightarrow>
                      pos\<lparr>shares := shares pos + amount,
                          cost_basis := (cost_basis pos * shares pos + amount * price)
                                          / (shares pos + amount)\<rparr>)
        \<and> trade_history (snd res) = trade_history b @ [trade]))
   \<and> (let b2 = run_trades (init_bot 1000) [(t1, ''X'', ''BUY'', 10, 5), (t2, ''X'', ''BUY'', 10, 5)]
      in cash (portfolio b2) = 900
       \<and> positions (portfolio b2) = [(''X'', \<lparr>shares = 10, cost_basis = 10, entry_time = t1\<rparr>)])"
proof (intro conjI impI)
  assume "amount * price \<le> cash (portfolio b)
      \<and> (\<forall>pos. map_of (positions (portfolio b)) symbol = Some pos \<longrightarrow> shares pos + amount \<noteq> 0)"
  then show "let trade = \<lparr>tr_symbol = symbol, tr_action = ''BUY'', tr_shares = amount,
                     tr_price = price, tr_value = amount * price, tr_timestamp = now\<rparr>;
           res = execute_trade b now symbol ''BUY'' price amount
       in fst res = Inr (Trade trade)
        \<and> cash (portfolio (snd res)) = cash (portfolio b) - amount * price
        \<and> map_of (positions (portfolio (snd res))) symbol =
            Some (case map_of (positions (portfolio b)) symbol of
                    None \<Rightarrow> \<lparr>shares = amount, cost_basis = price, entry_time = now\<rparr>
                  | Some pos \<Rightarrow>
                      pos\<lparr>shares := shares pos + amount,
                          cost_basis := (cost_basis pos * shares pos + amount * price)
                                          / (shares pos + amount)\<rparr>)
        \<and> trade_history (snd res) = trade_history b @ [trade]"
    using execute_trade_buy_effect [of amount price b symbol now] by blast
next
  show "let b2 = run_trades (init_bot 1000) [(t1, ''X'', ''BUY'', 10, 5), (t2, ''X'', ''BUY'', 10, 5)]
      in cash (portfolio b2) = 900
       \<and> positions (portfolio b2) = [(''X'', \<lparr>shares = 10, cost_basis = 10, entry_time = t1\<rparr>)]"
    unfolding two_equal_buys by simp
qed


lemma holding_five_eq:
  "holding_five =
     \<lparr>portfolio = \<lparr>cash = 950,
                   positions = [(''X'', \<lparr>shares = 5, cost_basis = 10, entry_time = 1\<rparr>)],
                   total_value = 1000\<rparr>,
      trade_history = [\<lparr>tr_symbol = ''X'', tr_action = ''BUY'', tr_shares = 5, tr_price = 10,
                        tr_value = 50, tr_timestamp = 1\<rparr>],
      risk_per_trade = 0.02\<rparr>"
  by (simp add: holding_five_def ledger_defs)

lemma holding_zero_eq:
  "holding_zero =
     \<lparr>portfolio = \<lparr>cash = 1000,
                   positions = [(''X'', \<lparr>shares = 0, cost_basis = 10, entry_time = 1\<rparr>)],
                   total_value = 1000\<rparr>,
      trade_history = [\<lparr>tr_symbol = ''X'', tr_action = ''BUY'', tr_shares = 0, tr_price = 10,
                        tr_value = 0, tr_timestamp = 1\<rparr>],
      risk_per_trade = 0.02\<rparr>"
  by (simp add: holding_zero_def ledger_defs)

text \<open>Holding 5 shares of X, a SELL of 100 at 10 sells 5, brings the cash from 950 to 1000
  and removes the position.\<close>

theorem execute_trade_sell_witness:
  "fst (execute_trade holding_five 2 ''X'' ''SELL'' 10 100) =
     Inr (Trade \<lparr>tr_symbol = ''X'', tr_action = ''SELL'', tr_shares = 5, tr_price = 10,
                 tr_value = 50, tr_timestamp = 2\<rparr>)
   \<and> cash (portfolio (snd (execute_trade holding_five 2 ''X'' ''SELL'' 10 100))) = 1000
   \<and> map_of (positions (portfolio (snd (execute_trade holding_five 2 ''X'' ''SELL'' 10 100)))) ''X''
       = None"
proof -
  have h: "map_of (positions (portfolio holding_five)) ''X''
             = Some \<lparr>shares = 5, cost_basis = 10, entry_time = 1\<rparr>"
    and c: "cash (portfolio holding_five) = 950"
    by (simp_all add: holding_five_eq)
  show ?thesis
    using execute_trade_sell [OF h, of 100 10 2] by (simp add: Let_def c)
qed

text \<open>
  Claim C4 as stated fails: a BUY within the cash raises \<^verbatim>\<open>ZeroDivisionError\<close> when
  the symbol is held and the shares add up to zero (a BUY of 0 on a position of 0 shares,
  a BUY of -5 on a position of 5 shares).
\<close>

theorem execute_trade_buy_counterexample:
  "0 * 10 \<le> cash (portfolio holding_zero)
   \<and> fst (execute_trade holding_zero 2 ''X'' ''BUY'' 10 0) = Inl ZeroDivisionError
   \<and> (- 5) * 10 \<le> cash (portfolio holding_five)
   \<and> fst (execute_trade holding_five 2 ''X'' ''BUY'' 10 (- 5)) = Inl ZeroDivisionError"
  by (simp add: holding_zero_eq holding_five_eq ledger_defs)

text \<open>A first BUY of 5 X at 10 (X not held), and a second one on the ledger it leaves
  (X held with 5 shares).\<close>

theorem execute_trade_buy_witness:
  "fst (execute_trade (init_bot 1000) 1 ''X'' ''BUY'' 10 5) =
     Inr (Trade \<lparr>tr_symbol = ''X'', tr_action = ''BUY'', tr_shares = 5, tr_price = 10,
                 tr_value = 50, tr_timestamp = 1\<rparr>)
   \<and> map_of (positions (portfolio (snd (execute_trade (init_bot 1000) 1 ''X'' ''BUY'' 10 5)))) ''X''
       = Some \<lparr>shares = 5, cost_basis = 10, entry_time = 1\<rparr>
   \<and> cash (portfolio (snd (execute_trade holding_five 2 ''X'' ''BUY'' 10 5))) = 900
   \<and> map_of (positions (portfolio (snd (execute_trade holding_five 2 ''X'' ''BUY'' 10 5)))) ''X''
       = Some \<lparr>shares = 10, cost_basis = 10, entry_time = 1\<rparr>"
proof -
  have a: "5 * 10 \<le> cash (portfolio (init_bot 1000))"
    and b: "\<forall>pos. map_of (positions (portfolio (init_bot 1000))) ''X'' = Some pos
              \<longrightarrow> shares pos + 5 \<noteq> 0"
    and n: "map_of (positions (portfolio (init_bot 1000))) ''X'' = None"
    by (simp_all add: init_bot_def)
  have c: "5 * 10 \<le> cash (portfolio holding_five)"
    and d: "\<forall>pos. map_of (positions (portfolio holding_five)) ''X'' = Some pos
              \<longrightarrow> shares pos + 5 \<noteq> 0"
    and m: "map_of (positions (portfolio holding_five)) ''X''
              = Some \<lparr>shares = 5, cost_basis = 10, entry_time = 1\<rparr>"
    and e: "cash (portfolio holding_five) = 950"
    by (simp_all add: holding_five_eq)
  show ?thesis
    using execute_trade_buy [of 5 10 "init_bot 1000" "''X''" 1] a b
      execute_trade_buy [of 5 10 holding_five "''X''" 2] c d
    by (simp add: Let_def n m e)
qed

lemma set_update_subset: "set (AList.update k v al) \<subseteq> insert (k, v) (set al)"
  by (induction al) auto

lemma set_delete_subset: "set (AList.delete k al) \<subseteq> set al"
  by (auto simp: AList.delete_eq)

lemma shares_positive_buy:
  assumes "shares_positive b" "amount > 0"
  shows "shares_positive (snd (buy_branch b now symbol price amount))"
proof (cases "map_of (positions (portfolio b)) symbol")
  case None
  show ?thesis
    using assms None set_update_subset [of symbol _ "positions (portfolio b)"]
    unfolding shares_positive_def buy_branch_def Let_def
    by (fastforce simp: ledger_fields)
next
  case (Some pos)
  then have "(symbol, pos) \<in> set (positions (portfolio b))" by (rule map_of_SomeD)
  with assms have p: "shares pos > 0" by (auto simp: shares_positive_def)
  with assms(2) have nz: "shares pos + amount \<noteq> 0" "shares pos + amount > 0" by simp_all
  show ?thesis
    using assms Some nz set_update_subset [of symbol _ "positions (portfolio b)"]
    unfolding shares_positive_def buy_branch_def Let_def
    by (fastforce simp: ledger_fields)
qed

lemma shares_positive_sell:
  assumes "shares_positive b" "amount > 0" "map_of (positions (portfolio b)) symbol = Some pos"
  shows "shares_positive (snd (sell_branch b now symbol pos price amount))"
proof -
  from assms(3) have "(symbol, pos) \<in> set (positions (portfolio b))" by (rule map_of_SomeD)
  with assms have p: "shares pos > 0" by (auto simp: shares_positive_def)
  show ?thesis
    using assms p set_update_subset [of symbol _ "positions (portfolio b)"]
      set_delete_subset [of symbol "positions (portfolio b)"]
    unfolding shares_positive_def sell_branch_def Let_def
    by (fastforce simp: ledger_fields AList.delete_update_same split: if_splits)
qed

lemma shares_positive_execute_trade:
  assumes "shares_positive b" "amount > 0"
  shows "shares_positive (snd (execute_trade b now symbol action price amount))"
  using assms
  by (auto simp: execute_trade_def Let_def shares_positive_buy shares_positive_sell
      split: option.splits)

lemma shares_positive_run_trades:
  assumes "shares_positive b"
    and "\<forall>(now, symbol, action, price, amount) \<in> set calls. amount > 0"
  shows "shares_positive (run_trades b calls)"
  using assms
proof (induction calls arbitrary: b)
  case Nil
  then show ?case by simp
next
  case (Cons call calls)
  obtain now symbol action price amount where c: "call = (now, symbol, action, price, amount)"
    by (cases call) auto
  with Cons.prems have "amount > 0" by simp
  with Cons.prems(1) have "shares_positive (snd (execute_trade b now symbol action price amount))"
    by (rule shares_positive_execute_trade)
  with Cons show ?case by (simp add: c)
qed

lemma execute_trade_positive_returns:
  assumes "shares_positive b" "amount > 0"
  shows "\<exists>r. fst (execute_trade b now symbol action price amount) = Inr r"
proof (cases "action = ''BUY'' \<and> amount * price \<le> cash (portfolio b)")
  case True
  show ?thesis
  proof (cases "map_of (positions (portfolio b)) symbol")
    case None
    with True show ?thesis
      by (simp add: execute_trade_def buy_branch_def Let_def ledger_fields)
  next
    case (Some pos)
    then have "(symbol, pos) \<in> set (positions (portfolio b))" by (rule map_of_SomeD)
    with assms have "shares pos + amount \<noteq> 0" by (auto simp: shares_positive_def)
    with True Some show ?thesis
      by (simp add: execute_trade_def buy_branch_def Let_def ledger_fields)
  qed
next
  case False
  then show ?thesis
    by (auto simp: execute_trade_def sell_branch_def Let_def ledger_fields split: option.splits)
qed

text \<open>
  Claim C8, amended.  In every ledger reached from the initial one by \<^verbatim>\<open>execute_trade\<close>
  calls whose amounts are all positive, every position has a positive number of shares,
  and a symbol is a key of the positions iff its entry has a positive number of shares.
\<close>

theorem positions_positive:
  assumes "\<forall>(now, symbol, action, price, amount) \<in> set calls. amount > 0"
  shows "(\<forall>(symbol, pos) \<in> set (positions (portfolio (run_trades (init_bot c) calls))).
            shares pos > 0)
       \<and> (\<forall>symbol. symbol \<in> fst ` set (positions (portfolio (run_trades (init_bot c) calls)))
            \<longleftrightarrow> (\<exists>pos. map_of (positions (portfolio (run_trades (init_bot c) calls))) symbol
                          = Some pos \<and> shares pos > 0))"
proof -
  have "shares_positive (init_bot c)"
    by (simp add: shares_positive_def init_bot_def)
  then have inv: "shares_positive (run_trades (init_bot c) calls)"
    using assms by (rule shares_positive_run_trades)
  let ?ps = "positions (portfolio (run_trades (init_bot c) calls))"
  from inv have a: "\<forall>(symbol, pos) \<in> set ?ps. shares pos > 0"
    by (simp add: shares_positive_def)
  have "symbol \<in> fst ` set ?ps \<longleftrightarrow> (\<exists>pos. map_of ?ps symbol = Some pos \<and> shares pos > 0)"
    for symbol
  proof
    assume "symbol \<in> fst ` set ?ps"
    then obtain pos where m: "map_of ?ps symbol = Some pos"
      by (metis domD dom_map_of_conv_image_fst)
    then have "(symbol, pos) \<in> set ?ps" by (rule map_of_SomeD)
    with a have "shares pos > 0" by auto
    with m show "\<exists>pos. map_of ?ps symbol = Some pos \<and> shares pos > 0" by blast
  next
    assume "\<exists>pos. map_of ?ps symbol = Some pos \<and> shares pos > 0"
    then show "symbol \<in> fst ` set ?ps"
      by (metis domI dom_map_of_conv_image_fst)
  qed
  with a show ?thesis by blast
qed

text \<open>
  Claim C8 as stated fails: a BUY of 0 shares of a symbol not held creates a position with
  0 shares.
\<close>

theorem positions_positive_counterexample:
  "(''X'', \<lparr>shares = 0, cost_basis = 10, entry_time = 1\<rparr>)
     \<in> set (positions (portfolio (run_trades (init_bot 1000) [(1, ''X'', ''BUY'', 10, 0)])))
   \<and> \<not> 0 < shares \<lparr>shares = 0, cost_basis = 10, entry_time = 1\<rparr>"
  by (simp add: ledger_defs)

text \<open>Three calls with positive amounts; the SELL closes X, and Y stays with 2 shares.\<close>

theorem positions_positive_witness:
  "positions (portfolio (run_trades (init_bot 1000)
       [(1, ''X'', ''BUY'', 10, 5), (2, ''Y'', ''BUY'', 20, 2), (3, ''X'', ''SELL'', 10, 100)]))
     = [(''Y'', \<lparr>shares = 2, cost_basis = 20, entry_time = 2\<rparr>)]
   \<and> 0 < shares (snd (hd (positions (portfolio (run_trades (init_bot 1000)
       [(1, ''X'', ''BUY'', 10, 5), (2, ''Y'', ''BUY'', 20, 2), (3, ''X'', ''SELL'', 10, 100)])))))"
proof -
  let ?calls = "[(1, ''X'', ''BUY'', 10, 5), (2, ''Y'', ''BUY'', 20, 2), (3, ''X'', ''SELL'', 10, 100)]
                 :: (real \<times> string \<times> string \<times> real \<times> real) list"
  have e: "positions (portfolio (run_trades (init_bot 1000) ?calls))
     = [(''Y'', \<lparr>shares = 2, cost_basis = 20, entry_time = 2\<rparr>)]"
    by (simp add: ledger_defs)
  have "\<forall>(now, symbol, action, price, amount) \<in> set ?calls. amount > 0" by simp
  from positions_positive [OF this, of 1000, THEN conjunct1] show ?thesis
    unfolding e by simp
qed

lemma foldl_portfolio_sum:
  "foldl (\<lambda>total (symbol, pos). total + shares pos * cost_basis pos) a ps
     = a + (\<Sum>(symbol, pos) \<leftarrow> ps. shares pos * cost_basis pos)"
  by (induction ps arbitrary: a) (auto simp: case_prod_beta)

text \<open>
  Claim C9.  \<^verbatim>\<open>get_portfolio_value\<close> returns the cash plus the sum over the positions of
  shares times cost basis, and leaves the bot as it was.
\<close>

theorem get_portfolio_value_formula:
  "get_portfolio_value b =
     (cash (portfolio b)
        + (\<Sum>(symbol, pos) \<leftarrow> positions (portfolio b). shares pos * cost_basis pos),
      b)"
  by (simp add: get_portfolio_value_def foldl_portfolio_sum)

text \<open>Two open positions: cash 910, 5 X at 10 and 2 Y at 20, valued at 1000.\<close>

theorem get_portfolio_value_formula_witness:
  "cash (portfolio two_positions) = 910
   \<and> positions (portfolio two_positions) =
       [(''X'', \<lparr>shares = 5, cost_basis = 10, entry_time = 1\<rparr>),
        (''Y'', \<lparr>shares = 2, cost_basis = 20, entry_time = 2\<rparr>)]
   \<and> get_portfolio_value two_positions = (1000, two_positions)"
proof -
  have c: "cash (portfolio two_positions) = 910"
    and p: "positions (portfolio two_positions) =
       [(''X'', \<lparr>shares = 5, cost_basis = 10, entry_time = 1\<rparr>),
        (''Y'', \<lparr>shares = 2, cost_basis = 20, entry_time = 2\<rparr>)]"
    by (simp_all add: two_positions_def ledger_defs)
  show ?thesis
    using get_portfolio_value_formula [of two_positions] by (simp add: c p)
qed

text \<open>
  Claim C3 fails on the code: with a price of 0 and a stop loss of 1 the price risk is 1,
  so the guard does not apply, and the division by the price raises
  \<^verbatim>\<open>ZeroDivisionError\<close>.
\<close>

theorem calculate_position_size_zero_price:
  "calculate_position_size (init_bot 1000) ''X'' 0 1 = (Inl ZeroDivisionError, init_bot 1000)"
  by (simp add: calculate_position_size_def init_bot_def)

lemma calculate_position_size_nonzero_price:
  assumes "price \<noteq> 0"
  shows "calculate_position_size b symbol price stop_loss =
     (Inr (if \<bar>price - stop_loss\<bar> = 0 then 0
           else min (cash (portfolio b) * risk_per_trade b / \<bar>price - stop_loss\<bar>)
                    (cash (portfolio b) * 0.1 / price)),
      b)"
  using assms by (simp add: calculate_position_size_def Let_def)

lemma calculate_position_size_degenerate:
  "calculate_position_size b symbol price price = (Inr 0, b)"
  by (simp add: calculate_position_size_def)

end
